theory Spec2Isabelle
  imports Complex_Main "HOL-Library.AList"
begin

section \<open>JavaScript primitives used by the Google Sheets loader\<close>

text \<open>
  The service in \<^verbatim>\<open>src/components/google-sheets-loader.tsx\<close> is TypeScript. Its
  functions use a handful of built-ins (\<^verbatim>\<open>trim\<close>, \<^verbatim>\<open>parseFloat\<close>, \<^verbatim>\<open>parseInt\<close>,
  \<^verbatim>\<open>isNaN\<close>, truthiness, \<^verbatim>\<open>encodeURIComponent\<close>, regular expression search), which
  are modelled first, following ECMAScript. Strings are lists of 8-bit characters, read as
  the code units U+0000 to U+00FF.
\<close>

subsection \<open>Characters and trimming\<close>

definition is_ws :: "char \<Rightarrow> bool" where
  \<comment> \<open>WhiteSpace and LineTerminator below U+0100: TAB, LF, VT, FF, CR, SP, NBSP.\<close>
  "is_ws c = ((of_char c :: nat) \<in> {9, 10, 11, 12, 13, 32, 160})"

definition trimStart :: "string \<Rightarrow> string" where
  "trimStart s = dropWhile is_ws s"

definition trimEnd :: "string \<Rightarrow> string" where
  "trimEnd s = rev (dropWhile is_ws (rev s))"

definition trim :: "string \<Rightarrow> string" where
  "trim s = trimEnd (trimStart s)"

definition is_digit :: "char \<Rightarrow> bool" where
  "is_digit c = (48 \<le> (of_char c :: nat) \<and> (of_char c :: nat) \<le> 57)"

definition digit_val :: "char \<Rightarrow> nat" where
  "digit_val c = of_char c - 48"

definition nat_of_digits :: "string \<Rightarrow> nat" where
  "nat_of_digits ds = foldl (\<lambda>n c. 10 * n + digit_val c) 0 ds"

subsection \<open>Numbers\<close>

text \<open>
  A Number is a binary64 value: NaN, the two infinities, negative zero, or a finite
  value, kept as the rational it denotes (\<open>Fin 0\<close> is positive zero). \<open>to_double\<close>
  rounds a sign and a magnitude \<open>p / q\<close> (with \<open>0 < q\<close>) to the nearest binary64
  value, ties to even, with subnormals below \<open>2^-1022\<close> and overflow to infinity from
  \<open>2^1024\<close>, in integer arithmetic.
\<close>

datatype jsnum = NaN | PosInf | NegInf | NegZero | Fin rat

definition pow2 :: "int \<Rightarrow> rat" where
  "pow2 k = (if 0 \<le> k then 2 ^ nat k else 1 / 2 ^ nat (- k))"

fun bit_length :: "nat \<Rightarrow> nat" where
  "bit_length n = (if n = 0 then 0 else Suc (bit_length (n div 2)))"

declare bit_length.simps [simp del]

definition scale2 :: "nat \<Rightarrow> nat \<Rightarrow> int \<Rightarrow> nat \<times> nat" where
  \<comment> \<open>the fraction \<open>(p / q) / 2^k\<close>\<close>
  "scale2 p q k = (if 0 \<le> k then (p, q * 2 ^ nat k) else (p * 2 ^ nat (- k), q))"

definition floor_log2 :: "nat \<Rightarrow> nat \<Rightarrow> int" where
  \<comment> \<open>for \<open>0 < p\<close> and \<open>0 < q\<close>: the \<open>e\<close> with \<open>2^e \<le> p / q < 2^(e+1)\<close>\<close>
  "floor_log2 p q =
     (let e = int (bit_length p) - int (bit_length q)
      in case scale2 p q e of (n, d) \<Rightarrow> if n < d then e - 1 else e)"

definition round_half_even :: "nat \<Rightarrow> nat \<Rightarrow> nat" where
  \<comment> \<open>\<open>n / d\<close> rounded to the nearest integer, ties to even\<close>
  "round_half_even n d =
     (let f = n div d; r = n mod d
      in if 2 * r < d then f else if d < 2 * r then f + 1
         else if even f then f else f + 1)"

definition to_double :: "bool \<Rightarrow> nat \<Rightarrow> nat \<Rightarrow> jsnum" where
  "to_double neg p q =
     (if p = 0 then (if neg then NegZero else Fin 0)
      else
        let e = max (floor_log2 p q) (- 1022);
            m = (case scale2 p q (e - 52) of (n, d) \<Rightarrow> round_half_even n d);
            r = of_nat m * pow2 (e - 52)
        in if pow2 1024 \<le> r then (if neg then NegInf else PosInf)
           else if m = 0 then (if neg then NegZero else Fin 0)
           else Fin (if neg then - r else r))"

definition decimal_value :: "bool \<Rightarrow> nat \<Rightarrow> int \<Rightarrow> jsnum" where
  \<comment> \<open>the Number for the decimal \<open>m * 10^k\<close> with the sign \<open>neg\<close>\<close>
  "decimal_value neg m k =
     (if 0 \<le> k then to_double neg (m * 10 ^ nat k) 1 else to_double neg m (10 ^ nat (- k)))"

definition is_nan :: "jsnum \<Rightarrow> bool" where
  "is_nan n = (n = NaN)"

definition num_gt_zero :: "jsnum \<Rightarrow> bool" where
  \<comment> \<open>\<^verbatim>\<open>n > 0\<close> on Numbers; false for NaN\<close>
  "num_gt_zero n = (case n of Fin q \<Rightarrow> 0 < q | PosInf \<Rightarrow> True | _ \<Rightarrow> False)"

subsection \<open>Parsing numbers from text\<close>

definition split_sign :: "string \<Rightarrow> bool \<times> string" where
  "split_sign s =
     (case s of
        c # r \<Rightarrow> if c = CHR ''-'' then (True, r) else if c = CHR ''+'' then (False, r)
                 else (False, s)
      | [] \<Rightarrow> (False, []))"

definition exponent_part :: "string \<Rightarrow> int \<times> string" where
  \<comment> \<open>an optional ExponentPart: its value and the text after it\<close>
  "exponent_part s =
     (case s of
        c # r \<Rightarrow>
          if c = CHR ''e'' \<or> c = CHR ''E'' then
            (case split_sign r of (neg, r') \<Rightarrow>
               let ds = takeWhile is_digit r' in
               if ds = [] then (0, s)
               else ((if neg then - int (nat_of_digits ds) else int (nat_of_digits ds)),
                     dropWhile is_digit r'))
          else (0, s)
      | [] \<Rightarrow> (0, []))"

definition str_decimal_prefix :: "string \<Rightarrow> (jsnum \<times> string) option" where
  \<comment> \<open>the longest prefix that is a StrDecimalLiteral: its Number value and the rest\<close>
  "str_decimal_prefix s =
     (case split_sign s of (neg, r0) \<Rightarrow>
        if take 8 r0 = ''Infinity'' then Some ((if neg then NegInf else PosInf), drop 8 r0)
        else
          let ip = takeWhile is_digit r0;
              r1 = dropWhile is_digit r0;
              fp = (case r1 of c # t \<Rightarrow> if c = CHR ''.'' then takeWhile is_digit t else []
                    | [] \<Rightarrow> []);
              r2 = (case r1 of c # t \<Rightarrow> if c = CHR ''.'' then dropWhile is_digit t else r1
                    | [] \<Rightarrow> [])
          in if ip = [] \<and> fp = [] then None
             else (case exponent_part r2 of (ex, r3) \<Rightarrow>
                     Some (decimal_value neg (nat_of_digits (ip @ fp))
                             (ex - int (length fp)), r3)))"

definition parseFloat :: "string \<Rightarrow> jsnum" where
  "parseFloat s =
     (case str_decimal_prefix (trimStart s) of None \<Rightarrow> NaN | Some (v, _) \<Rightarrow> v)"

definition parseInt :: "string \<Rightarrow> jsnum" where
  \<comment> \<open>\<^verbatim>\<open>parseInt(s, 10)\<close>\<close>
  "parseInt s =
     (case split_sign (trimStart s) of (neg, r) \<Rightarrow>
        let ds = takeWhile is_digit r in
        if ds = [] then NaN else to_double neg (nat_of_digits ds) 1)"

definition digit_of_radix :: "nat \<Rightarrow> char \<Rightarrow> nat option" where
  "digit_of_radix radix c =
     (let n = (of_char c :: nat);
          v = (if 48 \<le> n \<and> n \<le> 57 then Some (n - 48)
               else if 97 \<le> n \<and> n \<le> 102 then Some (n - 87)
               else if 65 \<le> n \<and> n \<le> 70 then Some (n - 55)
               else None)
      in case v of Some d \<Rightarrow> if d < radix then Some d else None | None \<Rightarrow> None)"

definition radix_literal :: "string \<Rightarrow> jsnum option" where
  \<comment> \<open>the text after \<^verbatim>\<open>0x\<close>, \<^verbatim>\<open>0o\<close> or \<^verbatim>\<open>0b\<close> read in that radix; \<open>None\<close> without such a prefix\<close>
  "radix_literal s =
     (case s of
        c0 # c1 # ds \<Rightarrow>
          if c0 = CHR ''0'' then
            (let radix = (if c1 = CHR ''x'' \<or> c1 = CHR ''X'' then Some 16
                          else if c1 = CHR ''o'' \<or> c1 = CHR ''O'' then Some 8
                          else if c1 = CHR ''b'' \<or> c1 = CHR ''B'' then Some (2::nat)
                          else None)
             in case radix of
                  None \<Rightarrow> None
                | Some r \<Rightarrow>
                    Some (if ds \<noteq> [] \<and> list_all (\<lambda>c. digit_of_radix r c \<noteq> None) ds
                          then to_double False
                                 (foldl (\<lambda>n c. r * n + (case digit_of_radix r c of
                                                           Some d \<Rightarrow> d | None \<Rightarrow> 0)) 0 ds) 1
                          else NaN))
          else None
      | _ \<Rightarrow> None)"

definition string_to_number :: "string \<Rightarrow> jsnum" where
  \<comment> \<open>StringToNumber: the whole trimmed text must be a numeric literal\<close>
  "string_to_number s =
     (let t = trim s in
      if t = [] then Fin 0
      else case radix_literal t of
             Some v \<Rightarrow> v
           | None \<Rightarrow>
               (case str_decimal_prefix t of
                  Some (v, rest) \<Rightarrow> if rest = [] then v else NaN
                | None \<Rightarrow> NaN))"

subsection \<open>Values, truthiness and \<^verbatim>\<open>isNaN\<close>\<close>

text \<open>
  A cell of the fetched table is a JSON scalar. A property that an object does not have
  reads as \<^verbatim>\<open>undefined\<close>, which is \<open>None\<close> at type \<open>jsval option\<close>.
\<close>

datatype jsval = VNull | VBool bool | VNum jsnum | VStr string

definition to_number :: "jsval \<Rightarrow> jsnum" where
  "to_number v =
     (case v of
        VNull \<Rightarrow> Fin 0
      | VBool b \<Rightarrow> (if b then Fin 1 else Fin 0)
      | VNum n \<Rightarrow> n
      | VStr s \<Rightarrow> string_to_number s)"

definition js_isNaN :: "jsval \<Rightarrow> bool" where
  "js_isNaN v = is_nan (to_number v)"

definition truthy :: "jsval \<Rightarrow> bool" where
  "truthy v =
     (case v of
        VNull \<Rightarrow> False
      | VBool b \<Rightarrow> b
      | VNum n \<Rightarrow> n \<noteq> NaN \<and> n \<noteq> Fin 0 \<and> n \<noteq> NegZero
      | VStr s \<Rightarrow> s \<noteq> [])"

definition truthy_prop :: "jsval option \<Rightarrow> bool" where
  "truthy_prop p = (case p of None \<Rightarrow> False | Some v \<Rightarrow> truthy v)"

definition js_or :: "jsval option \<Rightarrow> jsval \<Rightarrow> jsval" where
  \<comment> \<open>\<^verbatim>\<open>p || d\<close>\<close>
  "js_or p d = (case p of None \<Rightarrow> d | Some v \<Rightarrow> if truthy v then v else d)"

definition js_gt_zero :: "jsval option \<Rightarrow> bool" where
  \<comment> \<open>\<^verbatim>\<open>p > 0\<close>: the left operand is converted to a Number; \<^verbatim>\<open>undefined\<close> gives NaN\<close>
  "js_gt_zero p = (case p of None \<Rightarrow> False | Some v \<Rightarrow> num_gt_zero (to_number v))"

subsection \<open>Integers in template strings\<close>

fun show_nat :: "nat \<Rightarrow> string" where
  "show_nat n =
     (if n < 10 then [char_of (48 + n)] else show_nat (n div 10) @ [char_of (48 + n mod 10)])"

declare show_nat.simps [simp del]

definition show_int :: "int \<Rightarrow> string" where
  "show_int i = (if i < 0 then CHR ''-'' # show_nat (nat (- i)) else show_nat (nat i))"

subsection \<open>\<^verbatim>\<open>encodeURIComponent\<close>\<close>

definition hex_digit :: "nat \<Rightarrow> char" where
  "hex_digit n = ''0123456789ABCDEF'' ! n"

definition percent_byte :: "nat \<Rightarrow> string" where
  "percent_byte n = [CHR ''%'', hex_digit (n div 16), hex_digit (n mod 16)]"

definition uri_unreserved :: "char \<Rightarrow> bool" where
  "uri_unreserved c =
     (let n = (of_char c :: nat) in
      (97 \<le> n \<and> n \<le> 122) \<or> (65 \<le> n \<and> n \<le> 90) \<or> (48 \<le> n \<and> n \<le> 57)
      \<or> c \<in> set [CHR ''-'', CHR ''_'', CHR ''.'', CHR ''!'', CHR ''~'', CHR ''*'', CHR 0x27,
                   CHR ''('', CHR '')''])"

definition encode_char :: "char \<Rightarrow> string" where
  \<comment> \<open>a code unit from U+0080 on takes two bytes in UTF-8\<close>
  "encode_char c =
     (if uri_unreserved c then [c]
      else let n = (of_char c :: nat) in
           if n < 128 then percent_byte n
           else percent_byte (192 + n div 64) @ percent_byte (128 + n mod 64))"

definition encodeURIComponent :: "string \<Rightarrow> string" where
  "encodeURIComponent s = concat (map encode_char s)"

subsection \<open>Regular expression search\<close>

text \<open>
  The three patterns of \<^verbatim>\<open>extractSpreadsheetId\<close> have one form: a literal text followed
  by the group \<^verbatim>\<open>([a-zA-Z0-9-_]+)\<close>. \<open>match_capture lit s\<close> is
  \<^verbatim>\<open>s.match(/lit([a-zA-Z0-9-_]+)/)\<close> reduced to its group 1: the search tries each start
  position from the left, and the group is greedy.
\<close>

definition is_id_char :: "char \<Rightarrow> bool" where
  "is_id_char c =
     (let n = (of_char c :: nat) in
      (97 \<le> n \<and> n \<le> 122) \<or> (65 \<le> n \<and> n \<le> 90) \<or> (48 \<le> n \<and> n \<le> 57)
      \<or> c = CHR ''-'' \<or> c = CHR ''_'')"

definition match_here :: "string \<Rightarrow> string \<Rightarrow> string option" where
  "match_here lit s =
     (if take (length lit) s = lit \<and> takeWhile is_id_char (drop (length lit) s) \<noteq> []
      then Some (takeWhile is_id_char (drop (length lit) s)) else None)"

fun match_capture :: "string \<Rightarrow> string \<Rightarrow> string option" where
  "match_capture lit [] = match_here lit []"
| "match_capture lit (c # t) =
     (case match_here lit (c # t) of Some g \<Rightarrow> Some g | None \<Rightarrow> match_capture lit t)"

section \<open>The spreadsheet identifier\<close>

definition patterns :: "string list" where
  "patterns = [''/spreadsheets/d/'', ''/d/'', ''id='']"

fun first_capture :: "string list \<Rightarrow> string \<Rightarrow> string option" where
  "first_capture [] input = None"
| "first_capture (pattern # ps) input =
     (case match_capture pattern input of
        Some g \<Rightarrow> if g \<noteq> [] then Some g else first_capture ps input
      | None \<Rightarrow> first_capture ps input)"

definition extractSpreadsheetId :: "string \<Rightarrow> string option" where
  "extractSpreadsheetId input =
     (if CHR ''/'' \<notin> set input \<and> CHR ''?'' \<notin> set input then Some (trim input)
      else first_capture patterns input)"

subsection \<open>The shapes the locator is meant for\<close>





section \<open>Rows to deals\<close>

text \<open>
  A deal under construction is the object \<^verbatim>\<open>deal: any = {}\<close>: its properties in
  insertion order. Assigning to a property that exists replaces its value in place. The
  header names are taken to be ordinary property names: the accessor \<^verbatim>\<open>__proto__\<close> and the
  order of integer-like keys are not modelled.
\<close>

type_synonym deal = "(string \<times> jsval) list"

definition get_prop :: "deal \<Rightarrow> string \<Rightarrow> jsval option" where
  "get_prop d k = map_of d k"

definition set_prop :: "string \<Rightarrow> jsval \<Rightarrow> deal \<Rightarrow> deal" where
  "set_prop k v d = AList.update k v d"

definition cell_at :: "jsval list \<Rightarrow> nat \<Rightarrow> jsval" where
  \<comment> \<open>\<^verbatim>\<open>row[colIndex] !== undefined ? row[colIndex] : null\<close>\<close>
  "cell_at row colIndex = (if colIndex < length row then row ! colIndex else VNull)"

definition strip_currency :: "string \<Rightarrow> string" where
  \<comment> \<open>\<^verbatim>\<open>value.replace(/[$,]/g, '')\<close>\<close>
  "strip_currency s = filter (\<lambda>c. c \<noteq> CHR ''$'' \<and> c \<noteq> CHR '','') s"

definition coerce_cell :: "string \<Rightarrow> jsval \<Rightarrow> jsval" where
  \<comment> \<open>the value stored under \<open>header\<close> for the raw cell \<open>value\<close>\<close>
  "coerce_cell header value =
     (if header = ''deal_value'' then
        (let numValue = (case value of VStr s \<Rightarrow> VNum (parseFloat (strip_currency s))
                         | _ \<Rightarrow> value)
         in if js_isNaN numValue then VNum (Fin 0) else numValue)
      else if header = ''process_days'' then
        (let numValue = (case value of VStr s \<Rightarrow> VNum (parseInt s) | _ \<Rightarrow> value)
         in if js_isNaN numValue then VNull else numValue)
      else value)"

definition row_fields :: "string list \<Rightarrow> jsval list \<Rightarrow> deal" where
  \<comment> \<open>the \<^verbatim>\<open>headers.forEach\<close> loop over one row\<close>
  "row_fields headers row =
     fold (\<lambda>(colIndex, header) deal. set_prop header (coerce_cell header (cell_at row colIndex)) deal)
       (enumerate 0 headers) []"

definition synth_id :: "int \<Rightarrow> nat \<Rightarrow> string" where
  \<comment> \<open>\<^verbatim>\<open>`DEAL-${Date.now()}-${index}`\<close>\<close>
  "synth_id now index = ''DEAL-'' @ show_int now @ ''-'' @ show_nat index"

definition fill_defaults :: "deal \<Rightarrow> deal" where
  "fill_defaults deal =
     (let d1 = set_prop ''deal_name'' (js_or (get_prop deal ''deal_name'') (VStr ''Unnamed Deal'')) deal;
          d2 = set_prop ''broker_name'' (js_or (get_prop d1 ''broker_name'') (VStr ''Unknown'')) d1;
          d3 = set_prop ''status'' (js_or (get_prop d2 ''status'') (VStr ''Unknown'')) d2
      in set_prop ''deal_value'' (js_or (get_prop d3 ''deal_value'') (VNum (Fin 0))) d3)"

definition row_to_deal :: "int \<Rightarrow> string list \<Rightarrow> nat \<Rightarrow> jsval list \<Rightarrow> deal" where
  \<comment> \<open>the callback of \<^verbatim>\<open>rows.map\<close>; \<open>now\<close> is what \<^verbatim>\<open>Date.now()\<close> returns while this row is processed\<close>
  "row_to_deal now headers index row =
     (let deal = row_fields headers row;
          deal' = (if \<not> truthy_prop (get_prop deal ''deal_id'')
                   then set_prop ''deal_id'' (VStr (synth_id now index)) deal else deal)
      in fill_defaults deal')"

definition keep_deal :: "deal \<Rightarrow> bool" where
  \<comment> \<open>the callback of \<^verbatim>\<open>.filter\<close>\<close>
  "keep_deal deal =
     (truthy_prop (get_prop deal ''deal_id'')
      \<and> (get_prop deal ''deal_name'' \<noteq> Some (VStr ''Unnamed Deal'')
         \<or> js_gt_zero (get_prop deal ''deal_value'')))"

definition normalize_rows :: "(nat \<Rightarrow> int) \<Rightarrow> string list \<Rightarrow> jsval list list \<Rightarrow> deal list" where
  \<comment> \<open>\<^verbatim>\<open>rows.map(...)\<close>; \<open>clock index\<close> is the time at which row \<open>index\<close> is processed\<close>
  "normalize_rows clock headers rows =
     map (\<lambda>(index, row). row_to_deal (clock index) headers index row) (enumerate 0 rows)"

definition rows_to_deals :: "(nat \<Rightarrow> int) \<Rightarrow> string list \<Rightarrow> jsval list list \<Rightarrow> deal list" where
  \<comment> \<open>\<^verbatim>\<open>rows.map(...).filter(...)\<close>\<close>
  "rows_to_deals clock headers rows = filter keep_deal (normalize_rows clock headers rows)"

definition frozen_clock :: "int \<Rightarrow> nat \<Rightarrow> int" where
  \<comment> \<open>a clock that shows the same millisecond for every row\<close>
  "frozen_clock t index = t"

definition deal_ids :: "deal list \<Rightarrow> jsval option list" where
  "deal_ids ds = map (\<lambda>d. get_prop d ''deal_id'') ds"

section \<open>The transport and the two entry points\<close>

text \<open>
  \<^verbatim>\<open>fetch(url)\<close> is a parameter of the model: a function from the requested URL to what
  the promise settles with. A rejected promise and a failed \<^verbatim>\<open>response.json()\<close> carry a
  thrown value, an \<^verbatim>\<open>Error\<close> with its message or something else. \<^verbatim>\<open>response.ok\<close> holds for
  the statuses 200 to 299. The body of a values request is a ValueRange, whose \<^verbatim>\<open>values\<close>
  is missing, an empty array, or a header row of column names followed by data rows.
  Each entry point returns the URLs it requested along with its result.
\<close>

datatype thrown = ErrorObj string | NonError

datatype sheet_values = ValuesMissing | ValuesEmpty | ValuesTable "string list" "jsval list list"

record 'b http_response =
  status :: nat
  statusText :: string
  json :: "thrown + 'b"

datatype 'b fetch_outcome = Rejected thrown | Resolved "'b http_response"

definition response_ok :: "'b http_response \<Rightarrow> bool" where
  "response_ok r = (200 \<le> status r \<and> status r \<le> 299)"

definition row_count :: "sheet_values \<Rightarrow> nat" where
  "row_count vs = (case vs of ValuesMissing \<Rightarrow> 0 | ValuesEmpty \<Rightarrow> 0
                   | ValuesTable headers rows \<Rightarrow> Suc (length rows))"

definition blank :: "string \<Rightarrow> bool" where
  \<comment> \<open>\<^verbatim>\<open>!apiKey || apiKey.trim() === ''\<close>\<close>
  "blank apiKey = (apiKey = [] \<or> trim apiKey = [])"

definition values_url :: "string \<Rightarrow> string \<Rightarrow> string \<Rightarrow> string" where
  "values_url sheetId range' apiKey =
     ''https://sheets.googleapis.com/v4/spreadsheets/'' @ sheetId @ ''/values/''
       @ encodeURIComponent range' @ ''?key='' @ apiKey"

definition metadata_url :: "string \<Rightarrow> string \<Rightarrow> string" where
  "metadata_url sheetId apiKey =
     ''https://sheets.googleapis.com/v4/spreadsheets/'' @ sheetId @ ''?key='' @ apiKey
       @ ''&fields=sheets.properties.title''"

definition fetch_try :: "(string \<Rightarrow> sheet_values fetch_outcome) \<Rightarrow> (nat \<Rightarrow> int) \<Rightarrow> string
    \<Rightarrow> string \<Rightarrow> string \<Rightarrow> string list \<times> (thrown + deal list)" where
  \<comment> \<open>the \<^verbatim>\<open>try\<close> block of \<^verbatim>\<open>fetchGoogleSheetData\<close>\<close>
  "fetch_try net clock spreadsheetId apiKey range' =
     (case extractSpreadsheetId spreadsheetId of
        None \<Rightarrow> ([], Inl (ErrorObj ''Invalid spreadsheet ID or URL''))
      | Some sheetId \<Rightarrow>
          if sheetId = [] then ([], Inl (ErrorObj ''Invalid spreadsheet ID or URL''))
          else if blank apiKey then ([], Inl (ErrorObj ''API key is required''))
          else
            let url = values_url sheetId range' apiKey in
            (case net url of
               Rejected t \<Rightarrow> ([url], Inl t)
             | Resolved response \<Rightarrow>
                 if \<not> response_ok response then
                   (if status response = 403 then
                      ([url], Inl (ErrorObj ''Access denied. Make sure the sheet is publicly accessible and the API key is valid.''))
                    else if status response = 404 then
                      ([url], Inl (ErrorObj ''Sheet not found. Check the spreadsheet ID and range.''))
                    else ([url], Inl (ErrorObj (''Failed to fetch data: '' @ statusText response))))
                 else
                   (case json response of
                      Inl t \<Rightarrow> ([url], Inl t)
                    | Inr data \<Rightarrow>
                        (case data of
                           ValuesMissing \<Rightarrow>
                             ([url], Inl (ErrorObj ''No data found in the specified range''))
                         | ValuesEmpty \<Rightarrow>
                             ([url], Inl (ErrorObj ''No data found in the specified range''))
                         | ValuesTable headers rows \<Rightarrow>
                             if rows = [] then
                               ([url], Inl (ErrorObj ''Sheet contains headers but no data rows''))
                             else ([url], Inr (rows_to_deals clock headers rows))))))"

definition fetchGoogleSheetData :: "(string \<Rightarrow> sheet_values fetch_outcome) \<Rightarrow> (nat \<Rightarrow> int)
    \<Rightarrow> string \<Rightarrow> string \<Rightarrow> string \<Rightarrow> string list \<times> (string + deal list)" where
  \<comment> \<open>\<open>Inl m\<close> is the rejection with \<^verbatim>\<open>Error(m)\<close>\<close>
  "fetchGoogleSheetData net clock spreadsheetId apiKey range' =
     (case fetch_try net clock spreadsheetId apiKey range' of
        (urls, Inr deals) \<Rightarrow> (urls, Inr deals)
      | (urls, Inl (ErrorObj m)) \<Rightarrow> (urls, Inl m)
      | (urls, Inl NonError) \<Rightarrow>
          (urls, Inl ''Unknown error occurred while fetching Google Sheets data''))"

record validation =
  valid :: bool
  error :: "string option"

definition validateGoogleSheetConnection :: "(string \<Rightarrow> 'b fetch_outcome) \<Rightarrow> string \<Rightarrow> string
    \<Rightarrow> string list \<times> validation" where
  "validateGoogleSheetConnection net spreadsheetId apiKey =
     (case extractSpreadsheetId spreadsheetId of
        None \<Rightarrow> ([], \<lparr>valid = False, error = Some ''Invalid spreadsheet ID or URL''\<rparr>)
      | Some sheetId \<Rightarrow>
          if sheetId = [] then
            ([], \<lparr>valid = False, error = Some ''Invalid spreadsheet ID or URL''\<rparr>)
          else if blank apiKey then ([], \<lparr>valid = False, error = Some ''API key is required''\<rparr>)
          else
            let url = metadata_url sheetId apiKey in
            (case net url of
               Rejected (ErrorObj m) \<Rightarrow> ([url], \<lparr>valid = False, error = Some m\<rparr>)
             | Rejected NonError \<Rightarrow> ([url], \<lparr>valid = False, error = Some ''Unknown error''\<rparr>)
             | Resolved response \<Rightarrow>
                 if \<not> response_ok response then
                   (if status response = 403 then
                      ([url], \<lparr>valid = False,
                               error = Some ''Access denied. Check your API key and sheet permissions.''\<rparr>)
                    else if status response = 404 then
                      ([url], \<lparr>valid = False, error = Some ''Spreadsheet not found.''\<rparr>)
                    else ([url], \<lparr>valid = False,
                                   error = Some (''Connection failed: '' @ statusText response)\<rparr>))
                 else ([url], \<lparr>valid = True, error = None\<rparr>)))"

text \<open>A transport for concrete runs: it answers every request alike.\<close>

definition respond_with :: "nat \<Rightarrow> string \<Rightarrow> 'b \<Rightarrow> string \<Rightarrow> 'b fetch_outcome" where
  "respond_with st txt body url = Resolved \<lparr>status = st, statusText = txt, json = Inr body\<rparr>"

section \<open>Evaluation\<close>

lemmas char_eval = is_ws_def is_digit_def digit_val_def is_id_char_def

lemmas num_eval = trimStart_def trimEnd_def trim_def nat_of_digits_def
  pow2_def bit_length.simps floor_log2_def round_half_even_def to_double_def split_sign_def
  scale2_def decimal_value_def exponent_part_def str_decimal_prefix_def parseFloat_def
  parseInt_def is_nan_def num_gt_zero_def

lemmas val_eval = to_number_def js_isNaN_def truthy_def truthy_prop_def js_or_def js_gt_zero_def

lemmas deal_eval = get_prop_def set_prop_def cell_at_def strip_currency_def coerce_cell_def
  row_fields_def synth_id_def fill_defaults_def row_to_deal_def keep_deal_def
  normalize_rows_def rows_to_deals_def frozen_clock_def deal_ids_def

lemma parseFloat_2000: "parseFloat ''2000'' = Fin 2000"
  by (simp add: char_eval num_eval Let_def)

lemma parseFloat_empty: "parseFloat [] = NaN"
  by (simp add: num_eval)

section \<open>Properties of the row pipeline\<close>

lemma get_set_prop:
  "get_prop (set_prop k v d) k' = (if k' = k then Some v else get_prop d k')"
  by (simp add: get_prop_def set_prop_def update_conv')

lemma row_fields_Nil: "row_fields [] row = []"
  by (simp add: row_fields_def)

lemma row_fields_snoc:
  "row_fields (hs @ [h]) row
     = set_prop h (coerce_cell h (cell_at row (length hs))) (row_fields hs row)"
  by (simp add: row_fields_def enumerate_append_eq)

lemma get_prop_Nil: "get_prop [] k = None"
  by (simp add: get_prop_def)

lemma row_fields_absent: "k \<notin> set hs \<Longrightarrow> get_prop (row_fields hs row) k = None"
  by (induction hs rule: rev_induct)
    (simp_all add: row_fields_Nil row_fields_snoc get_set_prop get_prop_Nil)

lemma row_fields_last:
  assumes "j < length hs" and "hs ! j = k"
    and "\<forall>j'. j < j' \<and> j' < length hs \<longrightarrow> hs ! j' \<noteq> k"
  shows "get_prop (row_fields hs row) k = Some (coerce_cell k (cell_at row j))"
  using assms
proof (induction hs rule: rev_induct)
  case Nil
  then show ?case by simp
next
  case (snoc h hs)
  show ?case
  proof (cases "j = length hs")
    case True
    with snoc.prems show ?thesis
      by (simp add: row_fields_snoc get_set_prop)
  next
    case False
    with snoc.prems have j: "j < length hs" by simp
    from snoc.prems j have k: "hs ! j = k" by (simp add: nth_append)
    have later: "\<forall>j'. j < j' \<and> j' < length hs \<longrightarrow> hs ! j' \<noteq> k"
    proof (intro allI impI)
      fix j' assume a: "j < j' \<and> j' < length hs"
      with snoc.prems(3) have "(hs @ [h]) ! j' \<noteq> k" by simp
      with a show "hs ! j' \<noteq> k" by (simp add: nth_append)
    qed
    from snoc.prems(3)
    have "j < length hs \<and> length hs < length (hs @ [h]) \<longrightarrow> (hs @ [h]) ! length hs \<noteq> k"
      by blast
    with j have "h \<noteq> k" by simp
    with snoc.IH [OF j k later] show ?thesis
      by (auto simp add: row_fields_snoc get_set_prop)
  qed
qed

lemma row_fields_cases:
  "get_prop (row_fields hs row) k = None
   \<or> (\<exists>j<length hs. get_prop (row_fields hs row) k = Some (coerce_cell k (cell_at row j)))"
proof (induction hs rule: rev_induct)
  case Nil
  then show ?case by (simp add: row_fields_Nil get_prop_Nil)
next
  case (snoc h hs)
  show ?case
  proof (cases "k = h")
    case True
    then have "get_prop (row_fields (hs @ [h]) row) k
        = Some (coerce_cell k (cell_at row (length hs)))"
      by (simp add: row_fields_snoc get_set_prop)
    then show ?thesis by auto
  next
    case False
    then have "get_prop (row_fields (hs @ [h]) row) k = get_prop (row_fields hs row) k"
      by (simp add: row_fields_snoc get_set_prop)
    with snoc.IH show ?thesis by (auto simp add: less_Suc_eq)
  qed
qed


lemma fill_defaults_name:
  "get_prop (fill_defaults d) ''deal_name''
     = Some (js_or (get_prop d ''deal_name'') (VStr ''Unnamed Deal''))"
  by (simp add: fill_defaults_def Let_def get_set_prop)

lemma fill_defaults_id: "get_prop (fill_defaults d) ''deal_id'' = get_prop d ''deal_id''"
  by (simp add: fill_defaults_def Let_def get_set_prop)

lemma fill_defaults_days:
  "get_prop (fill_defaults d) ''process_days'' = get_prop d ''process_days''"
  by (simp add: fill_defaults_def Let_def get_set_prop)

lemma row_to_deal_id:
  "get_prop (row_to_deal now hs i row) ''deal_id''
     = (if truthy_prop (get_prop (row_fields hs row) ''deal_id'')
        then get_prop (row_fields hs row) ''deal_id'' else Some (VStr (synth_id now i)))"
  by (simp add: row_to_deal_def Let_def fill_defaults_id get_set_prop)


lemma row_to_deal_days:
  "get_prop (row_to_deal now hs i row) ''process_days''
     = get_prop (row_fields hs row) ''process_days''"
  by (simp add: row_to_deal_def Let_def fill_defaults_days get_set_prop)

lemma length_normalize_rows: "length (normalize_rows clock hs rows) = length rows"
  by (simp add: normalize_rows_def)

lemma nth_normalize_rows:
  "i < length rows \<Longrightarrow> normalize_rows clock hs rows ! i = row_to_deal (clock i) hs i (rows ! i)"
  by (simp add: normalize_rows_def nth_enumerate_eq)

lemma in_normalize_rows:
  assumes "d \<in> set (normalize_rows clock hs rows)"
  shows "\<exists>i<length rows. d = row_to_deal (clock i) hs i (rows ! i)"
proof -
  from assms obtain i where "i < length (normalize_rows clock hs rows)"
    and "normalize_rows clock hs rows ! i = d"
    by (auto simp add: in_set_conv_nth)
  then show ?thesis
    by (auto simp add: length_normalize_rows nth_normalize_rows)
qed

lemma synth_id_not_empty: "synth_id now i \<noteq> []"
  by (simp add: synth_id_def)

lemma row_to_deal_id_truthy: "truthy_prop (get_prop (row_to_deal now hs i row) ''deal_id'')"
  by (simp add: row_to_deal_id truthy_prop_def truthy_def synth_id_not_empty)

lemma extract_abc: "extractSpreadsheetId ''abc'' = Some ''abc''"
  by (simp add: extractSpreadsheetId_def trim_def trimStart_def trimEnd_def is_ws_def)

lemma key_not_blank: "\<not> blank ''key''"
  by (simp add: blank_def trim_def trimStart_def trimEnd_def is_ws_def)

text \<open>
  Once the table has a data row, \<^verbatim>\<open>fetchGoogleSheetData\<close> returns the deals: the rows are
  mapped and filtered by total functions, and no row makes the call fail.
\<close>

lemma fetch_returns_deals:
  assumes "extractSpreadsheetId spreadsheetId = Some sheetId" and "sheetId \<noteq> []"
    and "\<not> blank apiKey"
    and "net (values_url sheetId range' apiKey) = Resolved r"
    and "response_ok r" and "json r = Inr (ValuesTable headers rows)" and "rows \<noteq> []"
  shows "fetchGoogleSheetData net clock spreadsheetId apiKey range'
           = ([values_url sheetId range' apiKey], Inr (rows_to_deals clock headers rows))"
  using assms by (simp add: fetchGoogleSheetData_def fetch_try_def Let_def)

section \<open>The end-to-end example\<close>

lemma example_first_row:
  "row_to_deal t [''deal_id'', ''deal_name'', ''broker_name'', ''deal_value'', ''status''] k
     [VStr ''D1'', VStr ''Acme'', VStr ''Jo'', VStr ''$2,000'', VStr ''Open'']
   = [(''deal_id'', VStr ''D1''), (''deal_name'', VStr ''Acme''), (''broker_name'', VStr ''Jo''),
      (''deal_value'', VNum (Fin 2000)), (''status'', VStr ''Open'')]"
  by (simp add: deal_eval val_eval is_nan_def parseFloat_2000 Let_def)

lemma example_first_kept:
  "keep_deal [(''deal_id'', VStr ''D1''), (''deal_name'', VStr ''Acme''), (''broker_name'', VStr ''Jo''),
      (''deal_value'', VNum (Fin 2000)), (''status'', VStr ''Open'')]"
  by (simp add: keep_deal_def get_prop_def val_eval)

lemma example_second_dropped:
  "\<not> keep_deal (row_to_deal t [''deal_id'', ''deal_name'', ''broker_name'', ''deal_value'', ''status'']
       k [VStr [], VStr [], VStr [], VStr [], VStr []])"
  by (simp add: deal_eval val_eval is_nan_def num_gt_zero_def parseFloat_empty Let_def)

text \<open>
  Claim C1. The table with the header row \<^verbatim>\<open>deal_id, deal_name, broker_name, deal_value,
  status\<close> and the data rows \<^verbatim>\<open>D1, Acme, Jo, $2,000, Open\<close> and five empty texts gives,
  after \<^verbatim>\<open>map\<close> and \<^verbatim>\<open>filter\<close>, exactly one deal: \<^verbatim>\<open>{deal_id: "D1", deal_name: "Acme",
  broker_name: "Jo", deal_value: 2000, status: "Open"}\<close>. The second row gets a synthesized
  id, the default name and the value 0, and the filter drops it, whatever the clock shows.
  \<^verbatim>\<open>fetchGoogleSheetData\<close> returns this list when the transport answers with that table.
\<close>

theorem end_to_end_example:
  "rows_to_deals clock [''deal_id'', ''deal_name'', ''broker_name'', ''deal_value'', ''status'']
     [[VStr ''D1'', VStr ''Acme'', VStr ''Jo'', VStr ''$2,000'', VStr ''Open''],
      [VStr [], VStr [], VStr [], VStr [], VStr []]]
   = [[(''deal_id'', VStr ''D1''), (''deal_name'', VStr ''Acme''), (''broker_name'', VStr ''Jo''),
       (''deal_value'', VNum (Fin 2000)), (''status'', VStr ''Open'')]]
   \<and> snd (fetchGoogleSheetData
         (respond_with 200 ''OK''
            (ValuesTable [''deal_id'', ''deal_name'', ''broker_name'', ''deal_value'', ''status'']
               [[VStr ''D1'', VStr ''Acme'', VStr ''Jo'', VStr ''$2,000'', VStr ''Open''],
                [VStr [], VStr [], VStr [], VStr [], VStr []]]))
         clock ''abc'' ''key'' ''Sheet1'')
     = Inr [[(''deal_id'', VStr ''D1''), (''deal_name'', VStr ''Acme''), (''broker_name'', VStr ''Jo''),
       (''deal_value'', VNum (Fin 2000)), (''status'', VStr ''Open'')]]"
proof -
  let ?headers = "[''deal_id'', ''deal_name'', ''broker_name'', ''deal_value'', ''status'']"
  let ?rows = "[[VStr ''D1'', VStr ''Acme'', VStr ''Jo'', VStr ''$2,000'', VStr ''Open''],
      [VStr [], VStr [], VStr [], VStr [], VStr []]]"
  let ?deals = "[[(''deal_id'', VStr ''D1''), (''deal_name'', VStr ''Acme''),
       (''broker_name'', VStr ''Jo''), (''deal_value'', VNum (Fin 2000)),
       (''status'', VStr ''Open'')]]"
  have deals: "rows_to_deals clock ?headers ?rows = ?deals"
    by (simp add: rows_to_deals_def normalize_rows_def example_first_row example_first_kept
        example_second_dropped)
  have "fetchGoogleSheetData (respond_with 200 ''OK'' (ValuesTable ?headers ?rows))
           clock ''abc'' ''key'' ''Sheet1''
      = ([values_url ''abc'' ''Sheet1'' ''key''], Inr (rows_to_deals clock ?headers ?rows))"
    by (rule fetch_returns_deals [OF extract_abc _ key_not_blank, where
          r = "\<lparr>status = 200, statusText = ''OK'', json = Inr (ValuesTable ?headers ?rows)\<rparr>"])
      (simp_all add: respond_with_def response_ok_def)
  with deals show ?thesis by simp
qed

theorem end_to_end_example_witness:
  "rows_to_deals (frozen_clock 1700000000000)
     [''deal_id'', ''deal_name'', ''broker_name'', ''deal_value'', ''status'']
     [[VStr ''D1'', VStr ''Acme'', VStr ''Jo'', VStr ''$2,000'', VStr ''Open''],
      [VStr [], VStr [], VStr [], VStr [], VStr []]]
   = [[(''deal_id'', VStr ''D1''), (''deal_name'', VStr ''Acme''), (''broker_name'', VStr ''Jo''),
       (''deal_value'', VNum (Fin 2000)), (''status'', VStr ''Open'')]]"
  by (rule end_to_end_example [THEN conjunct1])

section \<open>The empty input\<close>

text \<open>
  Claim C10. \<^verbatim>\<open>extractSpreadsheetId("")\<close> is the empty string, not \<^verbatim>\<open>null\<close>: the input has
  no \<^verbatim>\<open>/\<close> and no \<^verbatim>\<open>?\<close>, so it is returned trimmed. Both entry points test the extracted
  identifier with \<^verbatim>\<open>!sheetId\<close>, which holds for the empty string, so both stop with the
  invalid-identifier error before any request: the list of requested URLs is empty,
  whatever the transport, the credential and the range are.
\<close>

theorem empty_input_rejected:
  "extractSpreadsheetId [] = Some []
   \<and> fetchGoogleSheetData net clock [] apiKey range' = ([], Inl ''Invalid spreadsheet ID or URL'')
   \<and> validateGoogleSheetConnection net' [] apiKey
       = ([], \<lparr>valid = False, error = Some ''Invalid spreadsheet ID or URL''\<rparr>)"
  by (simp add: extractSpreadsheetId_def trim_def trimStart_def trimEnd_def
      fetchGoogleSheetData_def fetch_try_def validateGoogleSheetConnection_def)

theorem empty_input_rejected_witness:
  "extractSpreadsheetId [] = Some []
   \<and> fetchGoogleSheetData (respond_with 200 ''OK'' ValuesEmpty) (frozen_clock 0) [] ''key'' ''Sheet1''
       = ([], Inl ''Invalid spreadsheet ID or URL'')
   \<and> validateGoogleSheetConnection (respond_with 200 ''OK'' ValuesEmpty) [] ''key''
       = ([], \<lparr>valid = False, error = Some ''Invalid spreadsheet ID or URL''\<rparr>)"
  by (rule empty_input_rejected)

section \<open>Empty and header-only tables\<close>

text \<open>
  Claim C9. Take a request that was sent (the identifier resolved to a non-empty text, the
  credential is not blank) and a response with a status from 200 to 299 whose body parsed.
  Then \<^verbatim>\<open>fetchGoogleSheetData\<close> fails with \<^verbatim>\<open>No data found in the specified range\<close> exactly
  when the body has no rows at all (\<^verbatim>\<open>values\<close> missing or empty), and with
  \<^verbatim>\<open>Sheet contains headers but no data rows\<close> exactly when it has exactly one row.
\<close>

theorem empty_and_headers_only:
  assumes "extractSpreadsheetId spreadsheetId = Some sheetId" and "sheetId \<noteq> []"
    and "\<not> blank apiKey"
    and "net (values_url sheetId range' apiKey) = Resolved r"
    and "response_ok r" and "json r = Inr data"
  shows "(snd (fetchGoogleSheetData net clock spreadsheetId apiKey range')
            = Inl ''No data found in the specified range'') = (row_count data = 0)
       \<and> (snd (fetchGoogleSheetData net clock spreadsheetId apiKey range')
            = Inl ''Sheet contains headers but no data rows'') = (row_count data = 1)"
  using assms
  by (cases data) (auto simp add: fetchGoogleSheetData_def fetch_try_def row_count_def Let_def)

theorem empty_and_headers_only_witness:
  "snd (fetchGoogleSheetData (respond_with 200 ''OK'' ValuesEmpty) (frozen_clock 0)
          ''abc'' ''key'' ''Sheet1'')
     = Inl ''No data found in the specified range''
   \<and> snd (fetchGoogleSheetData (respond_with 200 ''OK'' (ValuesTable [''deal_id''] []))
          (frozen_clock 0) ''abc'' ''key'' ''Sheet1'')
     = Inl ''Sheet contains headers but no data rows''"
  using empty_and_headers_only [OF extract_abc _ key_not_blank,
      where net = "respond_with 200 ''OK'' ValuesEmpty"
      and range' = "''Sheet1''" and data = ValuesEmpty and clock = "frozen_clock 0"
      and r = "\<lparr>status = 200, statusText = ''OK'', json = Inr ValuesEmpty\<rparr>"]
    empty_and_headers_only [OF extract_abc _ key_not_blank,
      where net = "respond_with 200 ''OK'' (ValuesTable [''deal_id''] [])"
      and range' = "''Sheet1''" and data = "ValuesTable [''deal_id''] []"
      and clock = "frozen_clock 0"
      and r = "\<lparr>status = 200, statusText = ''OK'', json = Inr (ValuesTable [''deal_id''] [])\<rparr>"]
  by (simp add: respond_with_def response_ok_def row_count_def)

section \<open>The reasons of the connection check\<close>

text \<open>
  Claim C7, as the code has it. \<^verbatim>\<open>validateGoogleSheetConnection\<close> answers, without a
  request, \<^verbatim>\<open>Invalid spreadsheet ID or URL\<close> when the identifier does not resolve (or resolves
  to the empty text), and \<^verbatim>\<open>API key is required\<close> when the identifier resolves and the
  credential is empty or blank. Otherwise it sends one request; a response outside 200 to 299
  gives \<^verbatim>\<open>Access denied. Check your API key and sheet permissions.\<close> for 403,
  \<^verbatim>\<open>Spreadsheet not found.\<close> for 404 and \<^verbatim>\<open>Connection failed: \<close> followed by the status text
  for any other status; a response from 200 to 299 gives \<^verbatim>\<open>{valid: true}\<close>.
\<close>

theorem validate_reasons:
  "((extractSpreadsheetId spreadsheetId = None \<or> extractSpreadsheetId spreadsheetId = Some [])
      \<longrightarrow> validateGoogleSheetConnection net spreadsheetId apiKey
            = ([], \<lparr>valid = False, error = Some ''Invalid spreadsheet ID or URL''\<rparr>))
   \<and> (extractSpreadsheetId spreadsheetId = Some sheetId \<and> sheetId \<noteq> [] \<and> blank apiKey
      \<longrightarrow> validateGoogleSheetConnection net spreadsheetId apiKey
            = ([], \<lparr>valid = False, error = Some ''API key is required''\<rparr>))
   \<and> (extractSpreadsheetId spreadsheetId = Some sheetId \<and> sheetId \<noteq> [] \<and> \<not> blank apiKey
        \<and> net (metadata_url sheetId apiKey) = Resolved r
      \<longrightarrow> validateGoogleSheetConnection net spreadsheetId apiKey
            = ([metadata_url sheetId apiKey],
               if response_ok r then \<lparr>valid = True, error = None\<rparr>
               else \<lparr>valid = False,
                      error = Some (if status r = 403
                                    then ''Access denied. Check your API key and sheet permissions.''
                                    else if status r = 404 then ''Spreadsheet not found.''
                                    else ''Connection failed: '' @ statusText r)\<rparr>))"
  by (auto simp add: validateGoogleSheetConnection_def Let_def)

theorem validate_reasons_witness:
  "validateGoogleSheetConnection (respond_with 200 ''OK'' ()) ''  '' ''key''
     = ([], \<lparr>valid = False, error = Some ''Invalid spreadsheet ID or URL''\<rparr>)
   \<and> validateGoogleSheetConnection (respond_with 200 ''OK'' ()) ''abc'' ''  ''
     = ([], \<lparr>valid = False, error = Some ''API key is required''\<rparr>)
   \<and> validateGoogleSheetConnection (respond_with 500 ''Server Error'' ()) ''abc'' ''key''
     = ([metadata_url ''abc'' ''key''],
        \<lparr>valid = False, error = Some ''Connection failed: Server Error''\<rparr>)
   \<and> validateGoogleSheetConnection (respond_with 204 ''No Content'' ()) ''abc'' ''key''
     = ([metadata_url ''abc'' ''key''], \<lparr>valid = True, error = None\<rparr>)"
proof -
  have blank_id: "extractSpreadsheetId ''  '' = Some []"
    by (simp add: extractSpreadsheetId_def trim_def trimStart_def trimEnd_def is_ws_def)
  have blank_key: "blank ''  ''"
    by (simp add: blank_def trim_def trimStart_def trimEnd_def is_ws_def)
  note a = validate_reasons [where spreadsheetId = "''  ''" and apiKey = "''key''"
      and net = "respond_with 200 ''OK'' ()", THEN conjunct1]
  note b = validate_reasons [where spreadsheetId = "''abc''" and sheetId = "''abc''"
      and apiKey = "''  ''" and net = "respond_with 200 ''OK'' ()", THEN conjunct2, THEN conjunct1]
  note c = validate_reasons [where spreadsheetId = "''abc''" and sheetId = "''abc''"
      and apiKey = "''key''" and net = "respond_with 500 ''Server Error'' ()"
      and r = "\<lparr>status = 500, statusText = ''Server Error'', json = Inr ()\<rparr>",
      THEN conjunct2, THEN conjunct2]
  note d = validate_reasons [where spreadsheetId = "''abc''" and sheetId = "''abc''"
      and apiKey = "''key''" and net = "respond_with 204 ''No Content'' ()"
      and r = "\<lparr>status = 204, statusText = ''No Content'', json = Inr ()\<rparr>",
      THEN conjunct2, THEN conjunct2]
  show ?thesis
    using a b c d
    by (simp add: blank_id blank_key extract_abc key_not_blank respond_with_def response_ok_def)
qed

text \<open>
  The reasons for 403 and 404 are not the texts of the specification: for 404 the code
  answers \<^verbatim>\<open>Spreadsheet not found.\<close>, with a full stop, and for 403 a sentence of its own.
\<close>

theorem validate_reasons_counterexample:
  "snd (validateGoogleSheetConnection (respond_with 404 ''Not Found'' ()) ''abc'' ''key'')
     = \<lparr>valid = False, error = Some ''Spreadsheet not found.''\<rparr>
   \<and> ''Spreadsheet not found.'' \<noteq> ''Spreadsheet not found''
   \<and> snd (validateGoogleSheetConnection (respond_with 403 ''Forbidden'' ()) ''abc'' ''key'')
     = \<lparr>valid = False, error = Some ''Access denied. Check your API key and sheet permissions.''\<rparr>"
  by (simp add: validateGoogleSheetConnection_def extract_abc key_not_blank respond_with_def
      response_ok_def Let_def)

section \<open>The filter\<close>

text \<open>
  Claim C4. For a deal typed as the \<^verbatim>\<open>Deal\<close> interface types it (texts for \<^verbatim>\<open>deal_id\<close> and
  \<^verbatim>\<open>deal_name\<close>, a finite number for \<^verbatim>\<open>deal_value\<close>), the filter keeps it if and only if the
  id is not empty and the name differs from \<^verbatim>\<open>Unnamed Deal\<close> or the value is greater than 0.
  On a candidate that \<^verbatim>\<open>map\<close> produced the id is never empty, so only the second condition
  decides. A record with a synthesized id, the default name and the value 0 is dropped; with
  the default name and the value 5 it is kept; with a real name and the value 0 it is kept.
\<close>

theorem filter_rule:
  "(get_prop d ''deal_id'' = Some (VStr i) \<and> get_prop d ''deal_name'' = Some (VStr n)
      \<and> get_prop d ''deal_value'' = Some (VNum (Fin q))
      \<longrightarrow> keep_deal d = (i \<noteq> [] \<and> (n \<noteq> ''Unnamed Deal'' \<or> 0 < q)))
   \<and> keep_deal (row_to_deal now hs k row)
       = (get_prop (row_to_deal now hs k row) ''deal_name'' \<noteq> Some (VStr ''Unnamed Deal'')
          \<or> js_gt_zero (get_prop (row_to_deal now hs k row) ''deal_value''))
   \<and> \<not> keep_deal [(''deal_id'', VStr (synth_id now k)), (''deal_name'', VStr ''Unnamed Deal''),
                    (''deal_value'', VNum (Fin 0))]
   \<and> keep_deal [(''deal_id'', VStr (synth_id now k)), (''deal_name'', VStr ''Unnamed Deal''),
                  (''deal_value'', VNum (Fin 5))]
   \<and> keep_deal [(''deal_id'', VStr (synth_id now k)), (''deal_name'', VStr ''Acme''),
                  (''deal_value'', VNum (Fin 0))]"
proof (intro conjI impI)
  assume "get_prop d ''deal_id'' = Some (VStr i) \<and> get_prop d ''deal_name'' = Some (VStr n)
      \<and> get_prop d ''deal_value'' = Some (VNum (Fin q))"
  then show "keep_deal d = (i \<noteq> [] \<and> (n \<noteq> ''Unnamed Deal'' \<or> 0 < q))"
    by (simp add: keep_deal_def val_eval num_gt_zero_def)
next
  show "keep_deal (row_to_deal now hs k row)
       = (get_prop (row_to_deal now hs k row) ''deal_name'' \<noteq> Some (VStr ''Unnamed Deal'')
          \<or> js_gt_zero (get_prop (row_to_deal now hs k row) ''deal_value''))"
    by (simp add: keep_deal_def row_to_deal_id_truthy)
next
  show "\<not> keep_deal [(''deal_id'', VStr (synth_id now k)), (''deal_name'', VStr ''Unnamed Deal''),
                    (''deal_value'', VNum (Fin 0))]"
    by (simp add: keep_deal_def get_prop_def val_eval num_gt_zero_def)
next
  show "keep_deal [(''deal_id'', VStr (synth_id now k)), (''deal_name'', VStr ''Unnamed Deal''),
                  (''deal_value'', VNum (Fin 5))]"
    by (simp add: keep_deal_def get_prop_def val_eval num_gt_zero_def synth_id_not_empty)
next
  show "keep_deal [(''deal_id'', VStr (synth_id now k)), (''deal_name'', VStr ''Acme''),
                  (''deal_value'', VNum (Fin 0))]"
    by (simp add: keep_deal_def get_prop_def val_eval num_gt_zero_def synth_id_not_empty)
qed

theorem filter_rule_witness:
  "keep_deal [(''deal_id'', VStr ''D7''), (''deal_name'', VStr ''Unnamed Deal''),
              (''deal_value'', VNum (Fin 5))]
   \<and> \<not> keep_deal [(''deal_id'', VStr ''D7''), (''deal_name'', VStr ''Unnamed Deal''),
              (''deal_value'', VNum (Fin 0))]
   \<and> \<not> keep_deal [(''deal_id'', VStr []), (''deal_name'', VStr ''Acme''),
              (''deal_value'', VNum (Fin 5))]"
  using filter_rule [where d = "[(''deal_id'', VStr ''D7''), (''deal_name'', VStr ''Unnamed Deal''),
          (''deal_value'', VNum (Fin 5))]" and i = "''D7''" and n = "''Unnamed Deal''" and q = 5,
        THEN conjunct1]
    filter_rule [where d = "[(''deal_id'', VStr ''D7''), (''deal_name'', VStr ''Unnamed Deal''),
          (''deal_value'', VNum (Fin 0))]" and i = "''D7''" and n = "''Unnamed Deal''" and q = 0,
        THEN conjunct1]
    filter_rule [where d = "[(''deal_id'', VStr []), (''deal_name'', VStr ''Acme''),
          (''deal_value'', VNum (Fin 5))]" and i = "[]" and n = "''Acme''" and q = 5,
        THEN conjunct1]
  by (simp add: get_prop_def)

section \<open>Unparseable process days\<close>

lemma parseInt_not_available: "parseInt ''N/A'' = NaN"
  by (simp add: num_eval char_eval)

lemma coerce_days_unparseable:
  "parseInt s = NaN \<Longrightarrow> coerce_cell ''process_days'' (VStr s) = VNull"
  by (simp add: coerce_cell_def js_isNaN_def to_number_def is_nan_def)

text \<open>
  Claim C5. Let \<open>j\<close> be the column that decides the field \<^verbatim>\<open>process_days\<close>: the last column
  with that header (a later column of the same name would overwrite it). If the cell of row
  \<open>i\<close> in that column is a text for which \<^verbatim>\<open>parseInt(text, 10)\<close> is NaN, then the deal
  made from row \<open>i\<close> has \<^verbatim>\<open>process_days = null\<close>, which is not the number 0, and \<^verbatim>\<open>map\<close>
  returns one deal for every row: nothing is raised for the row or for the batch. The text
  \<^verbatim>\<open>N/A\<close> is such a cell.
\<close>

theorem unparseable_days_null:
  assumes "j < length headers" and "headers ! j = ''process_days''"
    and "\<forall>j'. j < j' \<and> j' < length headers \<longrightarrow> headers ! j' \<noteq> ''process_days''"
    and "i < length rows" and "cell_at (rows ! i) j = VStr s" and "parseInt s = NaN"
  shows "get_prop (normalize_rows clock headers rows ! i) ''process_days'' = Some VNull
       \<and> Some VNull \<noteq> Some (VNum (Fin 0))
       \<and> length (normalize_rows clock headers rows) = length rows
       \<and> parseInt ''N/A'' = NaN"
proof -
  have "get_prop (row_fields headers (rows ! i)) ''process_days''
      = Some (coerce_cell ''process_days'' (cell_at (rows ! i) j))"
    using assms(1-3) by (rule row_fields_last)
  with assms(5,6) have "get_prop (row_fields headers (rows ! i)) ''process_days'' = Some VNull"
    by (simp add: coerce_days_unparseable)
  with assms(4) show ?thesis
    by (simp add: nth_normalize_rows row_to_deal_days length_normalize_rows
        parseInt_not_available)
qed

theorem unparseable_days_null_witness:
  "get_prop (normalize_rows (frozen_clock 0) [''deal_id'', ''process_days'']
       [[VStr ''D1'', VStr ''N/A'']] ! 0) ''process_days'' = Some VNull"
  using unparseable_days_null [where headers = "[''deal_id'', ''process_days'']" and j = 1
      and rows = "[[VStr ''D1'', VStr ''N/A'']]" and i = 0 and s = "''N/A''"
      and clock = "frozen_clock 0"]
  by (simp add: cell_at_def parseInt_not_available)

section \<open>The deal value\<close>

lemma show_nat_0: "show_nat 0 = ''0''"
  by (simp add: show_nat.simps char_of_eq_iff)














section \<open>The process days\<close>

lemma round_half_even_one: "round_half_even n (Suc 0) = n"
  by (simp add: round_half_even_def)

lemma to_double_integer:
  "to_double neg p 1 = NegZero \<or> to_double neg p 1 = PosInf \<or> to_double neg p 1 = NegInf
   \<or> (\<exists>z::int. to_double neg p 1 = Fin (of_int z))"
proof -
  define e where "e = max (floor_log2 p 1) (- 1022)"
  define m where "m = (case scale2 p 1 (e - 52) of (n, d) \<Rightarrow> round_half_even n d)"
  have "\<exists>z::int. of_nat m * pow2 (e - 52) = (of_int z :: rat)"
  proof (cases "0 \<le> e - 52")
    case True
    then have "of_nat m * pow2 (e - 52) = (of_int (int m * 2 ^ nat (e - 52)) :: rat)"
      by (simp add: pow2_def)
    then show ?thesis by blast
  next
    case False
    then have "m = p * 2 ^ nat (- (e - 52))"
      by (simp add: m_def scale2_def round_half_even_one)
    with False have "of_nat m * pow2 (e - 52) = (of_int (int p) :: rat)"
      by (simp add: pow2_def)
    then show ?thesis by blast
  qed
  then obtain z where z: "of_nat m * pow2 (e - 52) = (of_int z :: rat)" ..
  have zero: "Fin 0 = Fin (of_int 0)" by simp
  have unfolded: "to_double neg p 1 =
     (if p = 0 then (if neg then NegZero else Fin 0)
      else if pow2 1024 \<le> of_nat m * pow2 (e - 52) then (if neg then NegInf else PosInf)
           else if m = 0 then (if neg then NegZero else Fin 0)
           else Fin (if neg then - (of_nat m * pow2 (e - 52)) else of_nat m * pow2 (e - 52)))"
    by (simp add: to_double_def Let_def e_def m_def)
  show ?thesis
  proof (cases neg)
    case True
    with z have "Fin (if neg then - (of_nat m * pow2 (e - 52))
        else of_nat m * pow2 (e - 52)) = Fin (of_int (- z))"
      by simp
    then have "\<exists>k::int. Fin (if neg then - (of_nat m * pow2 (e - 52))
        else of_nat m * pow2 (e - 52)) = Fin (of_int k)"
      by blast
    with True show ?thesis unfolding unfolded by auto
  next
    case False
    with z have "Fin (if neg then - (of_nat m * pow2 (e - 52))
        else of_nat m * pow2 (e - 52)) = Fin (of_int z)"
      by simp
    then have "\<exists>k::int. Fin (if neg then - (of_nat m * pow2 (e - 52))
        else of_nat m * pow2 (e - 52)) = Fin (of_int k)"
      by blast
    moreover have "\<exists>k::int. Fin 0 = Fin (of_int k)"
      using zero by blast
    ultimately show ?thesis using False unfolding unfolded by auto
  qed
qed

lemma parseInt_shape:
  "parseInt s = NaN \<or> parseInt s = NegZero \<or> parseInt s = PosInf \<or> parseInt s = NegInf
   \<or> (\<exists>z::int. parseInt s = Fin (of_int z))"
proof -
  obtain neg r where sr: "split_sign (trimStart s) = (neg, r)"
    by (cases "split_sign (trimStart s)")
  show ?thesis
  proof (cases "takeWhile is_digit r = []")
    case True
    with sr show ?thesis by (simp add: parseInt_def)
  next
    case False
    with sr have "parseInt s = to_double neg (nat_of_digits (takeWhile is_digit r)) 1"
      by (simp add: parseInt_def Let_def)
    with to_double_integer [of neg "nat_of_digits (takeWhile is_digit r)"]
    show ?thesis by simp
  qed
qed

lemma coerce_days_text:
  "coerce_cell ''process_days'' (VStr s)
     = (if parseInt s = NaN then VNull else VNum (parseInt s))"
  by (simp add: coerce_cell_def js_isNaN_def to_number_def is_nan_def Let_def)

lemma coerce_days_not_nan:
  "\<not> js_isNaN (coerce_cell ''process_days'' c) \<and> (\<forall>t. coerce_cell ''process_days'' c \<noteq> VStr t)"
  by (cases c) (simp_all add: coerce_cell_def js_isNaN_def to_number_def is_nan_def Let_def)

lemma parseInt_minus_3: "parseInt ''-3'' = Fin (- 3)"
  by (simp add: char_eval num_eval Let_def)

lemma negative_days_row:
  "row_to_deal 0 [''deal_name'', ''process_days''] 0 [VStr ''Acme'', VStr ''-3'']
     = [(''deal_name'', VStr ''Acme''), (''process_days'', VNum (Fin (- 3))),
        (''deal_id'', VStr ''DEAL-0-0''), (''broker_name'', VStr ''Unknown''),
        (''status'', VStr ''Unknown''), (''deal_value'', VNum (Fin 0))]"
  by (simp add: deal_eval val_eval is_nan_def parseInt_minus_3 Let_def show_int_def show_nat_0)

lemma negative_days_normalized:
  "normalize_rows (frozen_clock 0) [''deal_name'', ''process_days''] [[VStr ''Acme'', VStr ''-3'']]
     = [[(''deal_name'', VStr ''Acme''), (''process_days'', VNum (Fin (- 3))),
        (''deal_id'', VStr ''DEAL-0-0''), (''broker_name'', VStr ''Unknown''),
        (''status'', VStr ''Unknown''), (''deal_value'', VNum (Fin 0))]]"
  by (simp add: normalize_rows_def frozen_clock_def negative_days_row)

lemma coerce_days_other:
  "(\<forall>t. c \<noteq> VStr t)
   \<Longrightarrow> coerce_cell ''process_days'' c = (if c = VNum NaN then VNull else c)"
  by (cases c) (simp_all add: coerce_cell_def js_isNaN_def to_number_def is_nan_def Let_def)

text \<open>
  Claim C8, as the code has it. A \<^verbatim>\<open>process_days\<close> that a deal has is never NaN and never a
  text. The cell that decides it is the one in the last column with that header. When that
  cell is a text, the field is \<^verbatim>\<open>null\<close> if \<^verbatim>\<open>parseInt(text, 10)\<close> is NaN and that Number
  otherwise, which is an integer of either sign, negative zero, or an infinity when the digits
  exceed the binary64 range. When that cell is not a text (a number, a boolean, \<^verbatim>\<open>null\<close>, or
  missing, which reads as \<^verbatim>\<open>null\<close>), the field is the cell as it is, so \<open>3.7\<close> stays \<open>3.7\<close>;
  only NaN becomes \<^verbatim>\<open>null\<close>. Without such a column the deal has no \<^verbatim>\<open>process_days\<close>. Nothing
  makes the field non-negative or an integer.
\<close>

theorem process_days_shape:
  "(d \<in> set (normalize_rows clock headers rows) \<and> get_prop d ''process_days'' = Some v
      \<longrightarrow> \<not> js_isNaN v \<and> (\<forall>t. v \<noteq> VStr t))
   \<and> (j < length headers \<and> headers ! j = ''process_days''
        \<and> (\<forall>j'. j < j' \<and> j' < length headers \<longrightarrow> headers ! j' \<noteq> ''process_days'')
        \<and> i < length rows \<and> cell_at (rows ! i) j = VStr s
      \<longrightarrow> get_prop (normalize_rows clock headers rows ! i) ''process_days''
            = Some (if parseInt s = NaN then VNull else VNum (parseInt s))
          \<and> (parseInt s = NaN \<or> parseInt s = NegZero \<or> parseInt s = PosInf
              \<or> parseInt s = NegInf \<or> (\<exists>z::int. parseInt s = Fin (of_int z))))
   \<and> (j < length headers \<and> headers ! j = ''process_days''
        \<and> (\<forall>j'. j < j' \<and> j' < length headers \<longrightarrow> headers ! j' \<noteq> ''process_days'')
        \<and> i < length rows \<and> (\<forall>t. cell_at (rows ! i) j \<noteq> VStr t)
      \<longrightarrow> get_prop (normalize_rows clock headers rows ! i) ''process_days''
            = Some (if cell_at (rows ! i) j = VNum NaN then VNull else cell_at (rows ! i) j))
   \<and> (i < length rows \<and> ''process_days'' \<notin> set headers
      \<longrightarrow> get_prop (normalize_rows clock headers rows ! i) ''process_days'' = None)"
proof -
  have general: "\<not> js_isNaN v \<and> (\<forall>t. v \<noteq> VStr t)"
    if a: "d \<in> set (normalize_rows clock headers rows) \<and> get_prop d ''process_days'' = Some v"
  proof -
    from a obtain k where "k < length rows"
      and d: "d = row_to_deal (clock k) headers k (rows ! k)"
      using in_normalize_rows by blast
    with a have "get_prop (row_fields headers (rows ! k)) ''process_days'' = Some v"
      by (simp add: row_to_deal_days)
    with row_fields_cases [of headers "rows ! k" "''process_days''"]
    obtain c where "v = coerce_cell ''process_days'' c" by auto
    then show ?thesis by (simp add: coerce_days_not_nan)
  qed
  have decided: "get_prop (normalize_rows clock headers rows ! i) ''process_days''
            = Some (coerce_cell ''process_days'' (cell_at (rows ! i) j))"
    if b: "j < length headers \<and> headers ! j = ''process_days''
        \<and> (\<forall>j'. j < j' \<and> j' < length headers \<longrightarrow> headers ! j' \<noteq> ''process_days'')
        \<and> i < length rows"
  proof -
    from b have "get_prop (row_fields headers (rows ! i)) ''process_days''
        = Some (coerce_cell ''process_days'' (cell_at (rows ! i) j))"
      by (intro row_fields_last) simp_all
    with b show ?thesis
      by (simp add: nth_normalize_rows row_to_deal_days)
  qed
  have text_cell: "get_prop (normalize_rows clock headers rows ! i) ''process_days''
            = Some (if parseInt s = NaN then VNull else VNum (parseInt s))"
    if b: "j < length headers \<and> headers ! j = ''process_days''
        \<and> (\<forall>j'. j < j' \<and> j' < length headers \<longrightarrow> headers ! j' \<noteq> ''process_days'')
        \<and> i < length rows \<and> cell_at (rows ! i) j = VStr s"
  proof -
    from b have "get_prop (normalize_rows clock headers rows ! i) ''process_days''
            = Some (coerce_cell ''process_days'' (cell_at (rows ! i) j))"
      by (intro decided) simp
    with b show ?thesis by (simp add: coerce_days_text)
  qed
  have other_cell: "get_prop (normalize_rows clock headers rows ! i) ''process_days''
            = Some (if cell_at (rows ! i) j = VNum NaN then VNull else cell_at (rows ! i) j)"
    if b: "j < length headers \<and> headers ! j = ''process_days''
        \<and> (\<forall>j'. j < j' \<and> j' < length headers \<longrightarrow> headers ! j' \<noteq> ''process_days'')
        \<and> i < length rows \<and> (\<forall>t. cell_at (rows ! i) j \<noteq> VStr t)"
  proof -
    from b have "get_prop (normalize_rows clock headers rows ! i) ''process_days''
            = Some (coerce_cell ''process_days'' (cell_at (rows ! i) j))"
      by (intro decided) simp
    moreover from b have "coerce_cell ''process_days'' (cell_at (rows ! i) j)
        = (if cell_at (rows ! i) j = VNum NaN then VNull else cell_at (rows ! i) j)"
      by (intro coerce_days_other) simp
    ultimately show ?thesis by simp
  qed
  have absent: "get_prop (normalize_rows clock headers rows ! i) ''process_days'' = None"
    if "i < length rows \<and> ''process_days'' \<notin> set headers"
    using that by (simp add: nth_normalize_rows row_to_deal_days row_fields_absent)
  from general text_cell other_cell absent parseInt_shape [of s] show ?thesis by blast
qed

theorem process_days_shape_witness:
  "get_prop (normalize_rows (frozen_clock 0) [''deal_name'', ''process_days'']
       [[VStr ''Acme'', VStr ''-3'']] ! 0) ''process_days'' = Some (VNum (Fin (- 3)))
   \<and> \<not> js_isNaN (VNum (Fin (- 3)))
   \<and> get_prop (normalize_rows (frozen_clock 0) [''deal_name'', ''process_days'']
       [[VStr ''Acme'', VNum (Fin (37 / 10))]] ! 0) ''process_days'' = Some (VNum (Fin (37 / 10)))
   \<and> get_prop (normalize_rows (frozen_clock 0) [''deal_name'', ''process_days'']
       [[VStr ''Acme'']] ! 0) ''process_days'' = Some VNull
   \<and> get_prop (normalize_rows (frozen_clock 0) [''deal_name''] [[VStr ''Acme'']] ! 0)
       ''process_days'' = None"
proof -
  let ?d = "[(''deal_name'', VStr ''Acme''), (''process_days'', VNum (Fin (- 3))),
        (''deal_id'', VStr ''DEAL-0-0''), (''broker_name'', VStr ''Unknown''),
        (''status'', VStr ''Unknown''), (''deal_value'', VNum (Fin 0))]"
  have mem: "?d \<in> set (normalize_rows (frozen_clock 0) [''deal_name'', ''process_days'']
      [[VStr ''Acme'', VStr ''-3'']])"
    by (simp only: negative_days_normalized list.set insert_iff simp_thms)
  have got: "get_prop ?d ''process_days'' = Some (VNum (Fin (- 3)))"
    by (simp add: get_prop_def)
  from process_days_shape [where d = ?d and v = "VNum (Fin (- 3))", THEN conjunct1] mem got
  have first: "\<not> js_isNaN (VNum (Fin (- 3)))" by blast
  from process_days_shape [where headers = "[''deal_name'', ''process_days'']" and j = 1
      and rows = "[[VStr ''Acme'', VStr ''-3'']]" and i = 0 and s = "''-3''"
      and clock = "frozen_clock 0", THEN conjunct2, THEN conjunct1]
  have second: "get_prop (normalize_rows (frozen_clock 0) [''deal_name'', ''process_days'']
       [[VStr ''Acme'', VStr ''-3'']] ! 0) ''process_days'' = Some (VNum (Fin (- 3)))"
    by (simp add: cell_at_def parseInt_minus_3)
  from process_days_shape [where headers = "[''deal_name'', ''process_days'']" and j = 1
      and rows = "[[VStr ''Acme'', VNum (Fin (37 / 10))]]" and i = 0
      and clock = "frozen_clock 0", THEN conjunct2, THEN conjunct2, THEN conjunct1]
  have third: "get_prop (normalize_rows (frozen_clock 0) [''deal_name'', ''process_days'']
       [[VStr ''Acme'', VNum (Fin (37 / 10))]] ! 0) ''process_days'' = Some (VNum (Fin (37 / 10)))"
    by (simp add: cell_at_def)
  from process_days_shape [where headers = "[''deal_name'', ''process_days'']" and j = 1
      and rows = "[[VStr ''Acme'']]" and i = 0
      and clock = "frozen_clock 0", THEN conjunct2, THEN conjunct2, THEN conjunct1]
  have fourth: "get_prop (normalize_rows (frozen_clock 0) [''deal_name'', ''process_days'']
       [[VStr ''Acme'']] ! 0) ''process_days'' = Some VNull"
    by (simp add: cell_at_def)
  from process_days_shape [where headers = "[''deal_name'']"
      and rows = "[[VStr ''Acme'']]" and i = 0
      and clock = "frozen_clock 0", THEN conjunct2, THEN conjunct2, THEN conjunct2]
  have fifth: "get_prop (normalize_rows (frozen_clock 0) [''deal_name''] [[VStr ''Acme'']] ! 0)
       ''process_days'' = None"
    by simp
  from first second third fourth fifth show ?thesis by simp
qed

text \<open>The text \<^verbatim>\<open>-3\<close> gives a deal of the result whose \<^verbatim>\<open>process_days\<close> is \<open>-3\<close>.\<close>

theorem process_days_counterexample:
  "rows_to_deals (frozen_clock 0) [''deal_name'', ''process_days''] [[VStr ''Acme'', VStr ''-3'']]
     = [[(''deal_name'', VStr ''Acme''), (''process_days'', VNum (Fin (- 3))),
         (''deal_id'', VStr ''DEAL-0-0''), (''broker_name'', VStr ''Unknown''),
         (''status'', VStr ''Unknown''), (''deal_value'', VNum (Fin 0))]]"
  by (simp add: rows_to_deals_def negative_days_normalized keep_deal_def get_prop_def val_eval)

section \<open>The deal id\<close>

lemma nat_of_digits_snoc: "nat_of_digits (ds @ [c]) = 10 * nat_of_digits ds + digit_val c"
  by (simp add: nat_of_digits_def)

lemma digit_val_char: "d < 10 \<Longrightarrow> digit_val (char_of (48 + (d::nat))) = d"
  by (simp add: digit_val_def)

lemma nat_of_digits_show_nat: "nat_of_digits (show_nat n) = n"
proof (induction n rule: show_nat.induct)
  case (1 n)
  show ?case
  proof (cases "n < 10")
    case True
    then have "show_nat n = [char_of (48 + n)]"
      by (simp add: show_nat.simps)
    with True show ?thesis
      using nat_of_digits_snoc [of "[]" "char_of (48 + n)"]
      by (simp add: digit_val_char nat_of_digits_def)
  next
    case False
    then have "show_nat n = show_nat (n div 10) @ [char_of (48 + n mod 10)]"
      by (subst show_nat.simps) simp
    with False 1 show ?thesis
      by (simp add: nat_of_digits_snoc digit_val_char)
  qed
qed

lemma show_nat_inj: "show_nat m = show_nat n \<Longrightarrow> m = n"
  by (metis nat_of_digits_show_nat)

lemma is_digit_char: "d < 10 \<Longrightarrow> is_digit (char_of (48 + (d::nat)))"
  by (simp add: is_digit_def)

lemma show_nat_digits: "c \<in> set (show_nat n) \<Longrightarrow> is_digit c"
proof (induction n rule: show_nat.induct)
  case (1 n)
  show ?case
  proof (cases "n < 10")
    case True
    then have "show_nat n = [char_of (48 + n)]"
      by (simp add: show_nat.simps)
    with True "1.prems" show ?thesis
      by (simp add: is_digit_char)
  next
    case False
    then have "show_nat n = show_nat (n div 10) @ [char_of (48 + n mod 10)]"
      by (subst show_nat.simps) simp
    with False 1 show ?thesis
      by (auto simp add: is_digit_char)
  qed
qed

lemma show_nat_no_dash: "CHR ''-'' \<notin> set (show_nat n)"
proof
  assume "CHR ''-'' \<in> set (show_nat n)"
  then have "is_digit CHR ''-''" by (rule show_nat_digits)
  then show False by (simp add: is_digit_def)
qed

lemma after_last_separator:
  assumes "c \<notin> set x" and "c \<notin> set y" and "a @ c # x = b @ c # y"
  shows "x = y"
proof -
  from assms(3) have "rev (a @ c # x) = rev (b @ c # y)" by simp
  then have "rev x @ c # rev a = rev y @ c # rev b" by simp
  then have "takeWhile (\<lambda>z. z \<noteq> c) (rev x @ c # rev a)
      = takeWhile (\<lambda>z. z \<noteq> c) (rev y @ c # rev b)"
    by simp
  moreover have "takeWhile (\<lambda>z. z \<noteq> c) (rev u @ c # rev w) = rev u" if "c \<notin> set u" for u w
  proof -
    have "takeWhile (\<lambda>z. z \<noteq> c) (rev u @ c # rev w) = takeWhile (\<lambda>z. z \<noteq> c) (rev u)"
      by (simp add: takeWhile_tail)
    also from that have "\<dots> = rev u"
      by (auto simp add: takeWhile_eq_all_conv)
    finally show ?thesis .
  qed
  ultimately have "rev x = rev y" using assms(1,2) by simp
  then show ?thesis by simp
qed

lemma synth_id_index: "synth_id t i = synth_id t' j \<Longrightarrow> i = j"
proof -
  assume "synth_id t i = synth_id t' j"
  then have "(''DEAL-'' @ show_int t) @ CHR ''-'' # show_nat i
      = (''DEAL-'' @ show_int t') @ CHR ''-'' # show_nat j"
    by (simp add: synth_id_def)
  then have "show_nat i = show_nat j"
    by (rule after_last_separator [OF show_nat_no_dash show_nat_no_dash])
  then show "i = j" by (rule show_nat_inj)
qed

lemma duplicate_id_row:
  "row_to_deal t [''deal_id'', ''deal_name''] k [VStr ''D1'', VStr n]
     = [(''deal_id'', VStr ''D1''), (''deal_name'', js_or (Some (VStr n)) (VStr ''Unnamed Deal'')),
        (''broker_name'', VStr ''Unknown''), (''status'', VStr ''Unknown''),
        (''deal_value'', VNum (Fin 0))]"
  by (simp add: deal_eval truthy_prop_def truthy_def Let_def js_or_def)

lemma show_nat_small: "show_nat 0 = ''0'' \<and> show_nat (Suc 0) = ''1'' \<and> show_nat 5 = ''5''"
  by (simp add: show_nat.simps char_of_eq_iff)

lemma coerce_id: "coerce_cell ''deal_id'' c = c"
  by (simp add: coerce_cell_def)

text \<open>
  Claim C3, as the code has it. Every deal of a result, and every deal that \<^verbatim>\<open>map\<close> produces,
  has a \<^verbatim>\<open>deal_id\<close> that is not empty (it is truthy). The cell that decides it is the one in
  the last column with the header \<^verbatim>\<open>deal_id\<close>. An id that this cell gives (a truthy cell) is
  kept as it is. When the cell is empty, \<^verbatim>\<open>null\<close> or missing, or no column has that header,
  the id is \<^verbatim>\<open>`DEAL-${Date.now()}-${index}`\<close>, for every such row; two such ids of different
  rows differ, also in the same millisecond, because the index differs. Nothing compares the
  ids of a result with one another.
\<close>

theorem deal_id_present_and_synthesized:
  "(\<forall>d\<in>set (rows_to_deals clock headers rows). truthy_prop (get_prop d ''deal_id''))
   \<and> (\<forall>d\<in>set (normalize_rows clock headers rows). truthy_prop (get_prop d ''deal_id''))
   \<and> (i < length rows \<and> j < length rows \<and> i \<noteq> j
        \<and> \<not> truthy_prop (get_prop (row_fields headers (rows ! i)) ''deal_id'')
        \<and> \<not> truthy_prop (get_prop (row_fields headers (rows ! j)) ''deal_id'')
      \<longrightarrow> get_prop (normalize_rows clock headers rows ! i) ''deal_id''
            = Some (VStr (synth_id (clock i) i))
          \<and> get_prop (normalize_rows clock headers rows ! j) ''deal_id''
            = Some (VStr (synth_id (clock j) j))
          \<and> synth_id (clock i) i \<noteq> synth_id (clock j) j)
   \<and> (r < length rows \<and> c < length headers \<and> headers ! c = ''deal_id''
        \<and> (\<forall>c'. c < c' \<and> c' < length headers \<longrightarrow> headers ! c' \<noteq> ''deal_id'')
      \<longrightarrow> get_prop (normalize_rows clock headers rows ! r) ''deal_id''
            = Some (if truthy (cell_at (rows ! r) c) then cell_at (rows ! r) c
                    else VStr (synth_id (clock r) r)))
   \<and> (r < length rows \<and> ''deal_id'' \<notin> set headers
      \<longrightarrow> get_prop (normalize_rows clock headers rows ! r) ''deal_id''
            = Some (VStr (synth_id (clock r) r)))
   \<and> (r < length rows
      \<longrightarrow> get_prop (normalize_rows clock headers rows ! r) ''deal_id''
            = (if truthy_prop (get_prop (row_fields headers (rows ! r)) ''deal_id'')
               then get_prop (row_fields headers (rows ! r)) ''deal_id''
               else Some (VStr (synth_id (clock r) r))))
   \<and> (m \<noteq> n \<longrightarrow> synth_id t m \<noteq> synth_id t' n)"
proof -
  have all: "truthy_prop (get_prop d ''deal_id'')"
    if "d \<in> set (normalize_rows clock headers rows)" for d
    using in_normalize_rows [OF that] by (auto simp add: row_to_deal_id_truthy)
  have kept: "truthy_prop (get_prop d ''deal_id'')"
    if "d \<in> set (rows_to_deals clock headers rows)" for d
    using that by (intro all) (simp add: rows_to_deals_def)
  have each: "get_prop (normalize_rows clock headers rows ! k) ''deal_id''
      = (if truthy_prop (get_prop (row_fields headers (rows ! k)) ''deal_id'')
         then get_prop (row_fields headers (rows ! k)) ''deal_id''
         else Some (VStr (synth_id (clock k) k)))"
    if "k < length rows" for k
    using that by (simp add: nth_normalize_rows row_to_deal_id)
  have differ: "synth_id u a \<noteq> synth_id u' b" if "a \<noteq> b" for u u' a b
    using that synth_id_index by blast
  have lacking: "get_prop (normalize_rows clock headers rows ! i) ''deal_id''
            = Some (VStr (synth_id (clock i) i))
          \<and> get_prop (normalize_rows clock headers rows ! j) ''deal_id''
            = Some (VStr (synth_id (clock j) j))
          \<and> synth_id (clock i) i \<noteq> synth_id (clock j) j"
    if b: "i < length rows \<and> j < length rows \<and> i \<noteq> j
        \<and> \<not> truthy_prop (get_prop (row_fields headers (rows ! i)) ''deal_id'')
        \<and> \<not> truthy_prop (get_prop (row_fields headers (rows ! j)) ''deal_id'')"
    using b each [of i] each [of j] differ [of i j "clock i" "clock j"] by simp
  have decided: "get_prop (normalize_rows clock headers rows ! r) ''deal_id''
            = Some (if truthy (cell_at (rows ! r) c) then cell_at (rows ! r) c
                    else VStr (synth_id (clock r) r))"
    if b: "r < length rows \<and> c < length headers \<and> headers ! c = ''deal_id''
        \<and> (\<forall>c'. c < c' \<and> c' < length headers \<longrightarrow> headers ! c' \<noteq> ''deal_id'')"
  proof -
    from b have "get_prop (row_fields headers (rows ! r)) ''deal_id''
        = Some (coerce_cell ''deal_id'' (cell_at (rows ! r) c))"
      by (intro row_fields_last) simp_all
    then have "get_prop (row_fields headers (rows ! r)) ''deal_id'' = Some (cell_at (rows ! r) c)"
      by (simp only: coerce_id)
    with b each [of r] show ?thesis by (simp add: truthy_prop_def)
  qed
  have absent: "get_prop (normalize_rows clock headers rows ! r) ''deal_id''
            = Some (VStr (synth_id (clock r) r))"
    if "r < length rows \<and> ''deal_id'' \<notin> set headers"
    using that each [of r] by (simp add: row_fields_absent truthy_prop_def)
  show ?thesis
    apply (intro conjI)
    subgoal using kept by blast
    subgoal using all by blast
    subgoal using lacking by blast
    subgoal using decided by blast
    subgoal using absent by blast
    subgoal using each [of r] by blast
    subgoal using differ [of m n t t'] by blast
    done
qed

theorem deal_id_present_and_synthesized_witness:
  "get_prop (normalize_rows (frozen_clock 5) [''deal_id'', ''deal_name'']
       [[VStr [], VStr ''A''], [VNull, VStr ''B'']] ! 0) ''deal_id'' = Some (VStr ''DEAL-5-0'')
   \<and> get_prop (normalize_rows (frozen_clock 5) [''deal_id'', ''deal_name'']
       [[VStr [], VStr ''A''], [VNull, VStr ''B'']] ! 1) ''deal_id'' = Some (VStr ''DEAL-5-1'')
   \<and> ''DEAL-5-0'' \<noteq> ''DEAL-5-1''
   \<and> get_prop (normalize_rows (frozen_clock 5) [''deal_id'', ''deal_name'']
       [[VStr ''D1'', VStr ''A'']] ! 0) ''deal_id'' = Some (VStr ''D1'')
   \<and> get_prop (normalize_rows (frozen_clock 5) [''deal_name''] [[VStr ''A'']] ! 0) ''deal_id''
       = Some (VStr ''DEAL-5-0'')"
proof -
  have first: "\<not> truthy_prop (get_prop (row_fields [''deal_id'', ''deal_name'']
      ([[VStr [], VStr ''A''], [VNull, VStr ''B'']] ! 0)) ''deal_id'')"
    by (simp add: deal_eval truthy_prop_def truthy_def)
  have second: "\<not> truthy_prop (get_prop (row_fields [''deal_id'', ''deal_name'']
      ([[VStr [], VStr ''A''], [VNull, VStr ''B'']] ! 1)) ''deal_id'')"
    by (simp add: deal_eval truthy_prop_def truthy_def)
  have ids: "synth_id 5 0 = ''DEAL-5-0'' \<and> synth_id 5 (Suc 0) = ''DEAL-5-1''"
    by (simp add: synth_id_def show_int_def show_nat_small)
  from deal_id_present_and_synthesized [where clock = "frozen_clock 5"
      and headers = "[''deal_id'', ''deal_name'']"
      and rows = "[[VStr [], VStr ''A''], [VNull, VStr ''B'']]" and i = 0 and j = 1,
      THEN conjunct2, THEN conjunct2, THEN conjunct1] first second
  have two: "get_prop (normalize_rows (frozen_clock 5) [''deal_id'', ''deal_name'']
       [[VStr [], VStr ''A''], [VNull, VStr ''B'']] ! 0) ''deal_id'' = Some (VStr ''DEAL-5-0'')
   \<and> get_prop (normalize_rows (frozen_clock 5) [''deal_id'', ''deal_name'']
       [[VStr [], VStr ''A''], [VNull, VStr ''B'']] ! 1) ''deal_id'' = Some (VStr ''DEAL-5-1'')
   \<and> ''DEAL-5-0'' \<noteq> ''DEAL-5-1''"
    by (simp add: frozen_clock_def ids)
  from deal_id_present_and_synthesized [where clock = "frozen_clock 5"
      and headers = "[''deal_id'', ''deal_name'']"
      and rows = "[[VStr ''D1'', VStr ''A'']]" and r = 0 and c = 0,
      THEN conjunct2, THEN conjunct2, THEN conjunct2, THEN conjunct1]
  have kept: "get_prop (normalize_rows (frozen_clock 5) [''deal_id'', ''deal_name'']
       [[VStr ''D1'', VStr ''A'']] ! 0) ''deal_id'' = Some (VStr ''D1'')"
    by (simp add: cell_at_def truthy_def)
  from deal_id_present_and_synthesized [where clock = "frozen_clock 5"
      and headers = "[''deal_name'']"
      and rows = "[[VStr ''A'']]" and r = 0,
      THEN conjunct2, THEN conjunct2, THEN conjunct2, THEN conjunct2, THEN conjunct1]
  have absent: "get_prop (normalize_rows (frozen_clock 5) [''deal_name''] [[VStr ''A'']] ! 0)
       ''deal_id'' = Some (VStr ''DEAL-5-0'')"
    by (simp add: frozen_clock_def ids)
  from two kept absent show ?thesis by simp
qed

text \<open>Two rows that give the same id are both kept, with that id.\<close>

theorem deal_id_unique_counterexample:
  "deal_ids (rows_to_deals (frozen_clock 0) [''deal_id'', ''deal_name'']
      [[VStr ''D1'', VStr ''A''], [VStr ''D1'', VStr ''B'']])
     = [Some (VStr ''D1''), Some (VStr ''D1'')]"
  by (simp add: rows_to_deals_def normalize_rows_def duplicate_id_row keep_deal_def get_prop_def
      deal_ids_def val_eval)

section \<open>The locator\<close>













end
